theory Spec2Isabelle
  imports Main
begin

section \<open>The CDK stack of \<open>codepipe_stack.py\<close> as a value\<close>

text \<open>
  \<open>CodepipeStack.__init__\<close> builds a construct tree: every \<open>X(self, "Id", ...)\<close> call adds a
  construct to the stack, and a few later calls (\<open>grant_read\<close>, \<open>add_ingress_rule\<close>,
  \<open>user_data.add_commands\<close>) mutate constructs that already exist. The model threads the
  stack through these calls. A Python variable holding a construct is the construct's id in
  the stack, so two uses of one variable are two uses of one id.
\<close>

subsection \<open>Strings that contain deploy-time attributes\<close>

type_synonym construct_id = string

text \<open>
  \<open>artifact_bucket.bucket_name\<close> and \<open>instance.instance_public_ip\<close> are attributes that are
  only known at deployment; a string built from them is a sequence of literal pieces and
  attribute references, and Python's \<open>+\<close> on such strings is \<open>@\<close>.
\<close>

datatype token =
    Lit string
  | BucketNameOf construct_id
  | InstancePublicIpOf construct_id

type_synonym tstring = "token list"

definition bucket_name :: "construct_id \<Rightarrow> tstring" where
  "bucket_name b = [BucketNameOf b]"

definition instance_public_ip :: "construct_id \<Rightarrow> tstring" where
  "instance_public_ip i = [InstancePublicIpOf i]"

fun token_buckets :: "token \<Rightarrow> construct_id list" where
  "token_buckets (BucketNameOf b) = [b]"
| "token_buckets _ = []"

definition buckets_in :: "tstring \<Rightarrow> construct_id list" where
  "buckets_in s = concat (map token_buckets s)"

subsection \<open>Constructs\<close>

datatype code_source = Code_from_directory string string

record repository =
  repo_id :: construct_id
  repository_name :: string
  repo_code :: code_source

record bucket =
  bucket_id :: construct_id

record phase =
  runtime_versions :: "(string \<times> string) list option"
  commands :: "string list"

record artifacts_spec =
  files :: "string list"
  base_directory :: string

record build_spec_object =
  version :: string
  phases :: "(string \<times> phase) list"
  artifacts :: artifacts_spec

datatype build_image = STANDARD_5_0

datatype build_environment_variable = BuildEnvironmentVariable tstring

record pipeline_project =
  project_id :: construct_id
  project_name :: string
  build_spec :: build_spec_object
  environment :: build_image
  environment_variables :: "(string \<times> build_environment_variable) list"

record lambda_function =
  function_id :: construct_id
  handler :: string

record vpc_network =
  vpc_id :: construct_id
  cidr :: string

datatype peer = Peer_any_ipv4 | Peer_ipv4 string

datatype port = Port_tcp nat

record ingress_rule =
  rule_peer :: peer
  connection :: port
  description :: string
  remote_rule :: bool

record security_group =
  sg_id :: construct_id
  sg_vpc :: construct_id
  allow_all_outbound :: bool
  ingress_rules :: "ingress_rule list"

record user_data_script =
  shebang :: string
  script_commands :: "tstring list"

datatype machine_image = AmazonLinuxImage_AMAZON_LINUX_2

record ec2_instance =
  instance_id :: construct_id
  instance_type :: string
  instance_image :: machine_image
  instance_vpc :: construct_id
  security_group :: construct_id
  user_data :: user_data_script

datatype artifact = Artifact string

fun artifact_name :: "artifact \<Rightarrow> string" where
  "artifact_name (Artifact n) = n"

datatype artifact_path = ArtifactPath artifact string

text \<open>
  The pipeline actions, with the keyword arguments of the source as positional arguments
  in the source's order. \<open>LambdaInvokeAction\<close> is the action of the commented-out block.
  The last argument of every action is its optional keyword \<open>run_order\<close>, \<open>None\<close> where the
  call does not pass it.
\<close>

datatype action =
    CodeCommitSourceAction string string construct_id artifact "nat option"
      \<comment> \<open>\<open>action_name\<close>, \<open>branch\<close>, \<open>repository\<close>, \<open>output\<close>, \<open>run_order\<close>\<close>
  | CodeBuildAction string construct_id artifact "artifact list" "nat option"
      \<comment> \<open>\<open>action_name\<close>, \<open>project\<close>, \<open>input\<close>, \<open>outputs\<close>, \<open>run_order\<close>\<close>
  | S3DeployAction string artifact construct_id bool "nat option"
      \<comment> \<open>\<open>action_name\<close>, \<open>input\<close>, \<open>bucket\<close>, \<open>extract\<close>, \<open>run_order\<close>\<close>
  | CloudFormationCreateUpdateStackAction string artifact_path string bool "nat option"
      \<comment> \<open>\<open>action_name\<close>, \<open>template_path\<close>, \<open>stack_name\<close>, \<open>admin_permissions\<close>,
          \<open>run_order\<close>\<close>
  | LambdaInvokeAction string construct_id "(string \<times> tstring) list" "nat option"
      \<comment> \<open>\<open>action_name\<close>, \<open>lambda_\<close>, \<open>user_parameters\<close>, \<open>run_order\<close>\<close>

record stage_props =
  stage_name :: string
  actions :: "action list"

record code_pipeline =
  pipeline_id :: construct_id
  pipeline_name :: string
  stages :: "stage_props list"

record cfn_output =
  output_id :: string
  output_value :: tstring

datatype grantee = ProjectGrantee construct_id | InstanceGrantee construct_id

datatype granted_resource = RepositoryResource construct_id | BucketResource construct_id

record read_grant =
  grant_on :: granted_resource
  grant_to :: grantee

record stack =
  repositories :: "repository list"
  buckets :: "bucket list"
  projects :: "pipeline_project list"
  lambda_functions :: "lambda_function list"
  vpcs :: "vpc_network list"
  security_groups :: "security_group list"
  instances :: "ec2_instance list"
  pipelines :: "code_pipeline list"
  outputs :: "cfn_output list"
  read_grants :: "read_grant list"

definition empty_stack :: stack where
  "empty_stack =
     \<lparr>repositories = [], buckets = [], projects = [], lambda_functions = [], vpcs = [],
      security_groups = [], instances = [], pipelines = [], outputs = [], read_grants = []\<rparr>"

subsection \<open>The calls that add or change constructs\<close>

definition codecommit_Repository ::
  "stack \<Rightarrow> construct_id \<Rightarrow> string \<Rightarrow> code_source \<Rightarrow> construct_id \<times> stack" where
  "codecommit_Repository self i name src =
     (i, self\<lparr>repositories := repositories self @
            [\<lparr>repo_id = i, repository_name = name, repo_code = src\<rparr>]\<rparr>)"

definition s3_Bucket :: "stack \<Rightarrow> construct_id \<Rightarrow> construct_id \<times> stack" where
  "s3_Bucket self i = (i, self\<lparr>buckets := buckets self @ [\<lparr>bucket_id = i\<rparr>]\<rparr>)"

definition codebuild_PipelineProject ::
  "stack \<Rightarrow> construct_id \<Rightarrow> string \<Rightarrow> build_spec_object \<Rightarrow> build_image \<Rightarrow>
   (string \<times> build_environment_variable) list \<Rightarrow> construct_id \<times> stack" where
  "codebuild_PipelineProject self i name spec img env =
     (i, self\<lparr>projects := projects self @
            [\<lparr>project_id = i, project_name = name, build_spec = spec, environment = img,
              environment_variables = env\<rparr>]\<rparr>)"

definition ec2_Vpc :: "stack \<Rightarrow> construct_id \<Rightarrow> string \<Rightarrow> construct_id \<times> stack" where
  "ec2_Vpc self i c = (i, self\<lparr>vpcs := vpcs self @ [\<lparr>vpc_id = i, cidr = c\<rparr>]\<rparr>)"

definition ec2_SecurityGroup ::
  "stack \<Rightarrow> construct_id \<Rightarrow> construct_id \<Rightarrow> bool \<Rightarrow> construct_id \<times> stack" where
  "ec2_SecurityGroup self i v out =
     (i, self\<lparr>security_groups := security_groups self @
            [\<lparr>sg_id = i, sg_vpc = v, allow_all_outbound = out, ingress_rules = []\<rparr>]\<rparr>)"

definition add_ingress_rule :: "stack \<Rightarrow> construct_id \<Rightarrow> ingress_rule \<Rightarrow> stack" where
  "add_ingress_rule self g r =
     self\<lparr>security_groups :=
       map (\<lambda>s. if sg_id s = g then s\<lparr>ingress_rules := ingress_rules s @ [r]\<rparr> else s)
         (security_groups self)\<rparr>"

definition UserData_for_linux :: "string \<Rightarrow> user_data_script" where
  "UserData_for_linux sb = \<lparr>shebang = sb, script_commands = []\<rparr>"

definition ec2_Instance ::
  "stack \<Rightarrow> construct_id \<Rightarrow> string \<Rightarrow> machine_image \<Rightarrow> construct_id \<Rightarrow> construct_id \<Rightarrow>
   user_data_script \<Rightarrow> construct_id \<times> stack" where
  "ec2_Instance self i ty img v g ud =
     (i, self\<lparr>instances := instances self @
            [\<lparr>instance_id = i, instance_type = ty, instance_image = img, instance_vpc = v,
              security_group = g, user_data = ud\<rparr>]\<rparr>)"

definition add_commands :: "stack \<Rightarrow> construct_id \<Rightarrow> tstring list \<Rightarrow> stack" where
  "add_commands self i cs =
     self\<lparr>instances :=
       map (\<lambda>n. if instance_id n = i
                then n\<lparr>user_data := (user_data n)
                        \<lparr>script_commands := script_commands (user_data n) @ cs\<rparr>\<rparr>
                else n)
         (instances self)\<rparr>"

definition grant_read :: "stack \<Rightarrow> granted_resource \<Rightarrow> grantee \<Rightarrow> stack" where
  "grant_read self r g =
     self\<lparr>read_grants := read_grants self @ [\<lparr>grant_on = r, grant_to = g\<rparr>]\<rparr>"

text \<open>
  \<open>pipeline.Pipeline\<close> takes an optional \<open>artifact_bucket\<close>. Called without one, as in the
  source, the construct creates a bucket of its own, \<open>ArtifactsBucket\<close>, inside its scope.
\<close>

definition pipeline_Pipeline ::
  "stack \<Rightarrow> construct_id \<Rightarrow> string \<Rightarrow> construct_id option \<Rightarrow> stage_props list \<Rightarrow>
   construct_id \<times> stack" where
  "pipeline_Pipeline self i name artifact_bucket sts =
     (let self = (case artifact_bucket of
                    None \<Rightarrow> snd (s3_Bucket self (i @ ''/ArtifactsBucket''))
                  | Some b \<Rightarrow> self)
      in (i, self\<lparr>pipelines := pipelines self @
                 [\<lparr>pipeline_id = i, pipeline_name = name, stages = sts\<rparr>]\<rparr>))"

definition CfnOutput :: "stack \<Rightarrow> string \<Rightarrow> tstring \<Rightarrow> stack" where
  "CfnOutput self i v = self\<lparr>outputs := outputs self @ [\<lparr>output_id = i, output_value = v\<rparr>]\<rparr>"

subsection \<open>\<open>CodepipeStack.__init__\<close>\<close>

definition the_build_spec :: build_spec_object where
  "the_build_spec =
     \<lparr>version = ''0.2'',
      phases =
        [(''install'',
            \<lparr>runtime_versions = Some [(''python'', ''3.9'')],
             commands = [''pip install -r requirements.txt'']\<rparr>),
         (''build'',
            \<lparr>runtime_versions = None,
             commands = [''echo Building the Python app...'', ''python build.py'']\<rparr>)],
      artifacts = \<lparr>files = [''**/*''], base_directory = ''dist''\<rparr>\<rparr>"

definition CodepipeStack_init :: stack where
  "CodepipeStack_init =
     (let self = empty_stack;
          (code_repo, self) =
             codecommit_Repository self ''CodeRepo'' ''simple-app-code-repo''
               (Code_from_directory ''app'' ''main'');
          (artifact_bucket, self) = s3_Bucket self ''ArtifactBucket'';
          (build_project, self) =
             codebuild_PipelineProject self ''BuildProject'' ''PythonAppBuildProject''
               the_build_spec STANDARD_5_0
               [(''BUCKET_NAME'', BuildEnvironmentVariable (bucket_name artifact_bucket))];
          self = grant_read self (RepositoryResource code_repo) (ProjectGrantee build_project);
          (vpc, self) = ec2_Vpc self ''InstanceVpc'' ''10.0.0.0/16'';
          (instance_sg, self) = ec2_SecurityGroup self ''InstanceSecurityGroup'' vpc True;
          self = add_ingress_rule self instance_sg
                   \<lparr>rule_peer = Peer_any_ipv4, connection = Port_tcp 22,
                    description = ''Allow SSH access'', remote_rule = False\<rparr>;
          (inst, self) =
             ec2_Instance self ''AppInstance'' ''t2.micro'' AmazonLinuxImage_AMAZON_LINUX_2
               vpc instance_sg (UserData_for_linux ''#!/bin/bash'');
          self = add_commands self inst
                   [[Lit ''yum install -y python3''],
                    [Lit ''aws s3 cp s3://''] @ bucket_name artifact_bucket @
                      [Lit ''/dist/djangopro.tar.gz /tmp/djangopro.tar.gz''],
                    [Lit ''tar -zxvf /tmp/djangopro.tar.gz -C /tmp''],
                    [Lit ''cd /tmp/bloodbankmanagement''],
                    [Lit ''python3 manage.py runserver 0.0.0.0:8000'']];
          self = grant_read self (BucketResource artifact_bucket) (InstanceGrantee inst);
          (code_pipeline, self) =
             pipeline_Pipeline self ''BuildDeployPipeline'' ''PythonAppPipeline'' None
               [\<lparr>stage_name = ''Source'',
                 actions =
                   [CodeCommitSourceAction ''CodeCommit'' ''main'' code_repo
                      (Artifact ''SourceOutput'') None]\<rparr>,
                \<lparr>stage_name = ''Build'',
                 actions =
                   [CodeBuildAction ''Build'' build_project (Artifact ''SourceOutput'')
                      [Artifact ''BuildOutput''] None]\<rparr>,
                \<lparr>stage_name = ''Deploy'',
                 actions =
                   [S3DeployAction ''Deploy'' (Artifact ''BuildOutput'') artifact_bucket True None,
                    CloudFormationCreateUpdateStackAction ''UpdateStack''
                      (ArtifactPath (Artifact ''BuildOutput'') ''template.yaml'')
                      ''PythonAppStack'' True None]\<rparr>];
          self = CfnOutput self ''InstancePublicIp'' (instance_public_ip inst)
      in self)"

subsection \<open>Reading the declaration\<close>

definition find_project :: "stack \<Rightarrow> construct_id \<Rightarrow> pipeline_project option" where
  "find_project st i = find (\<lambda>p. project_id p = i) (projects st)"

definition find_security_group :: "stack \<Rightarrow> construct_id \<Rightarrow> security_group option" where
  "find_security_group st i = find (\<lambda>g. sg_id g = i) (security_groups st)"

definition find_instance :: "stack \<Rightarrow> construct_id \<Rightarrow> ec2_instance option" where
  "find_instance st i = find (\<lambda>n. instance_id n = i) (instances st)"

definition pipeline_stages :: "stack \<Rightarrow> stage_props list" where
  "pipeline_stages st = concat (map stages (pipelines st))"

definition lookup_stage :: "stack \<Rightarrow> string \<Rightarrow> stage_props option" where
  "lookup_stage st n = find (\<lambda>s. stage_name s = n) (pipeline_stages st)"

text \<open>
  The artifacts an action reads and writes. The CloudFormation action reads the artifact its
  \<open>template_path\<close> points into.
\<close>

fun action_inputs :: "action \<Rightarrow> artifact list" where
  "action_inputs (CodeCommitSourceAction _ _ _ _ _) = []"
| "action_inputs (CodeBuildAction _ _ i _ _) = [i]"
| "action_inputs (S3DeployAction _ i _ _ _) = [i]"
| "action_inputs (CloudFormationCreateUpdateStackAction _ (ArtifactPath a _) _ _ _) = [a]"
| "action_inputs (LambdaInvokeAction _ _ _ _) = []"

fun action_outputs :: "action \<Rightarrow> artifact list" where
  "action_outputs (CodeCommitSourceAction _ _ _ out _) = [out]"
| "action_outputs (CodeBuildAction _ _ _ outs _) = outs"
| "action_outputs (S3DeployAction _ _ _ _ _) = []"
| "action_outputs (CloudFormationCreateUpdateStackAction _ _ _ _ _) = []"
| "action_outputs (LambdaInvokeAction _ _ _ _) = []"

definition stage_input_names :: "stage_props \<Rightarrow> string list" where
  "stage_input_names s = map artifact_name (concat (map action_inputs (actions s)))"

definition stage_output_names :: "stage_props \<Rightarrow> string list" where
  "stage_output_names s = map artifact_name (concat (map action_outputs (actions s)))"

text \<open>
  The artifact contract of a stage list, checked front to back: \<open>avail\<close> holds the names
  that exist before the first stage of the list runs.
\<close>

fun inputs_produced :: "string list \<Rightarrow> stage_props list \<Rightarrow> bool" where
  "inputs_produced avail [] = True"
| "inputs_produced avail (s # ss) =
     (list_all (\<lambda>a. a \<in> set avail) (stage_input_names s) \<and>
      inputs_produced (avail @ stage_output_names s) ss)"

text \<open>The commands of a buildspec, phase after phase in the order the phases are written.\<close>

definition build_commands :: "build_spec_object \<Rightarrow> string list" where
  "build_commands spec = concat (map (\<lambda>(n, p). commands p) (phases spec))"

text \<open>
  A \<open>CodeBuildAction\<close> runs the project it names; \<open>stage_projects\<close> are the projects run by
  the actions of the stage with the given name.
\<close>

fun action_project :: "stack \<Rightarrow> action \<Rightarrow> pipeline_project option" where
  "action_project st (CodeBuildAction _ p _ _ _) = find_project st p"
| "action_project st _ = None"

definition stage_actions :: "stack \<Rightarrow> string \<Rightarrow> action list" where
  "stage_actions st n = (case lookup_stage st n of None \<Rightarrow> [] | Some s \<Rightarrow> actions s)"

definition stage_projects :: "stack \<Rightarrow> string \<Rightarrow> pipeline_project list" where
  "stage_projects st n = List.map_filter (action_project st) (stage_actions st n)"

definition stage_commands :: "stack \<Rightarrow> string \<Rightarrow> string list" where
  "stage_commands st n = concat (map (\<lambda>p. build_commands (build_spec p)) (stage_projects st n))"

fun action_bucket :: "action \<Rightarrow> construct_id option" where
  "action_bucket (S3DeployAction _ _ b _ _) = Some b"
| "action_bucket _ = None"

definition readable_by_instance :: "stack \<Rightarrow> construct_id \<Rightarrow> granted_resource list" where
  "readable_by_instance st i =
     map grant_on (filter (\<lambda>g. grant_to g = InstanceGrantee i) (read_grants st))"

definition instance_script :: "stack \<Rightarrow> construct_id \<Rightarrow> tstring list" where
  "instance_script st i =
     (case find_instance st i of None \<Rightarrow> [] | Some n \<Rightarrow> script_commands (user_data n))"

definition instance_security_group :: "stack \<Rightarrow> construct_id \<Rightarrow> security_group option" where
  "instance_security_group st i =
     (case find_instance st i of None \<Rightarrow> None
      | Some n \<Rightarrow> find_security_group st (security_group n))"

text \<open>
  The run order of an action is its \<open>run_order\<close>, and 1 when none is passed. Within a stage
  an action runs before another when its run order is smaller; actions of equal run order
  are started together.
\<close>

fun run_order_arg :: "action \<Rightarrow> nat option" where
  "run_order_arg (CodeCommitSourceAction _ _ _ _ r) = r"
| "run_order_arg (CodeBuildAction _ _ _ _ r) = r"
| "run_order_arg (S3DeployAction _ _ _ _ r) = r"
| "run_order_arg (CloudFormationCreateUpdateStackAction _ _ _ _ r) = r"
| "run_order_arg (LambdaInvokeAction _ _ _ r) = r"

definition action_run_order :: "action \<Rightarrow> nat" where
  "action_run_order a = (case run_order_arg a of None \<Rightarrow> 1 | Some n \<Rightarrow> n)"

definition runs_before :: "action \<Rightarrow> action \<Rightarrow> bool" where
  "runs_before a b = (action_run_order a < action_run_order b)"

fun is_lambda_invoke :: "action \<Rightarrow> bool" where
  "is_lambda_invoke (LambdaInvokeAction _ _ _ _) = True"
| "is_lambda_invoke _ = False"

fun is_code_build :: "action \<Rightarrow> bool" where
  "is_code_build (CodeBuildAction _ _ _ _ _) = True"
| "is_code_build _ = False"

text \<open>\<open>Peer.any_ipv4()\<close> is the CIDR block of every IPv4 address.\<close>

fun peer_cidr :: "peer \<Rightarrow> string" where
  "peer_cidr Peer_any_ipv4 = ''0.0.0.0/0''"
| "peer_cidr (Peer_ipv4 c) = c"

fun admits_tcp :: "ingress_rule \<Rightarrow> nat \<Rightarrow> bool" where
  "admits_tcp r n = (case connection r of Port_tcp m \<Rightarrow> m = n)"

section \<open>The fields of the constructed stack\<close>

lemmas init_defs = CodepipeStack_init_def empty_stack_def codecommit_Repository_def s3_Bucket_def
  codebuild_PipelineProject_def ec2_Vpc_def ec2_SecurityGroup_def add_ingress_rule_def
  UserData_for_linux_def ec2_Instance_def add_commands_def grant_read_def pipeline_Pipeline_def
  CfnOutput_def bucket_name_def instance_public_ip_def Let_def

lemma init_repositories:
  "repositories CodepipeStack_init =
     [\<lparr>repo_id = ''CodeRepo'', repository_name = ''simple-app-code-repo'',
       repo_code = Code_from_directory ''app'' ''main''\<rparr>]"
  by (simp add: init_defs)

lemma init_buckets:
  "buckets CodepipeStack_init =
     [\<lparr>bucket_id = ''ArtifactBucket''\<rparr>, \<lparr>bucket_id = ''BuildDeployPipeline/ArtifactsBucket''\<rparr>]"
  by (simp add: init_defs)

lemma init_projects:
  "projects CodepipeStack_init =
     [\<lparr>project_id = ''BuildProject'', project_name = ''PythonAppBuildProject'',
       build_spec = the_build_spec, environment = STANDARD_5_0,
       environment_variables =
         [(''BUCKET_NAME'', BuildEnvironmentVariable [BucketNameOf ''ArtifactBucket''])]\<rparr>]"
  by (simp add: init_defs)

lemma init_lambda_functions: "lambda_functions CodepipeStack_init = []"
  by (simp add: init_defs)

lemma init_security_groups:
  "security_groups CodepipeStack_init =
     [\<lparr>sg_id = ''InstanceSecurityGroup'', sg_vpc = ''InstanceVpc'', allow_all_outbound = True,
       ingress_rules =
         [\<lparr>rule_peer = Peer_any_ipv4, connection = Port_tcp 22,
           description = ''Allow SSH access'', remote_rule = False\<rparr>]\<rparr>]"
  by (simp add: init_defs)

lemma init_instances:
  "instances CodepipeStack_init =
     [\<lparr>instance_id = ''AppInstance'', instance_type = ''t2.micro'',
       instance_image = AmazonLinuxImage_AMAZON_LINUX_2, instance_vpc = ''InstanceVpc'',
       security_group = ''InstanceSecurityGroup'',
       user_data =
         \<lparr>shebang = ''#!/bin/bash'',
          script_commands =
            [[Lit ''yum install -y python3''],
             [Lit ''aws s3 cp s3://'', BucketNameOf ''ArtifactBucket'',
              Lit ''/dist/djangopro.tar.gz /tmp/djangopro.tar.gz''],
             [Lit ''tar -zxvf /tmp/djangopro.tar.gz -C /tmp''],
             [Lit ''cd /tmp/bloodbankmanagement''],
             [Lit ''python3 manage.py runserver 0.0.0.0:8000'']]\<rparr>\<rparr>]"
  by (simp add: init_defs)

lemma init_pipeline_stages:
  "pipeline_stages CodepipeStack_init =
     [\<lparr>stage_name = ''Source'',
       actions =
         [CodeCommitSourceAction ''CodeCommit'' ''main'' ''CodeRepo''
            (Artifact ''SourceOutput'') None]\<rparr>,
      \<lparr>stage_name = ''Build'',
       actions =
         [CodeBuildAction ''Build'' ''BuildProject'' (Artifact ''SourceOutput'')
            [Artifact ''BuildOutput''] None]\<rparr>,
      \<lparr>stage_name = ''Deploy'',
       actions =
         [S3DeployAction ''Deploy'' (Artifact ''BuildOutput'') ''ArtifactBucket'' True None,
          CloudFormationCreateUpdateStackAction ''UpdateStack''
            (ArtifactPath (Artifact ''BuildOutput'') ''template.yaml'') ''PythonAppStack'' True
        None]\<rparr>]"
  by (simp add: init_defs pipeline_stages_def)

lemma init_pipeline_names:
  "map pipeline_name (pipelines CodepipeStack_init) = [''PythonAppPipeline'']"
  by (simp add: init_defs)

lemma init_outputs:
  "outputs CodepipeStack_init =
     [\<lparr>output_id = ''InstancePublicIp'', output_value = [InstancePublicIpOf ''AppInstance'']\<rparr>]"
  by (simp add: init_defs)

lemma init_read_grants:
  "read_grants CodepipeStack_init =
     [\<lparr>grant_on = RepositoryResource ''CodeRepo'', grant_to = ProjectGrantee ''BuildProject''\<rparr>,
      \<lparr>grant_on = BucketResource ''ArtifactBucket'', grant_to = InstanceGrantee ''AppInstance''\<rparr>]"
  by (simp add: init_defs)

lemma stage_actions_Source:
  "stage_actions CodepipeStack_init ''Source'' =
     [CodeCommitSourceAction ''CodeCommit'' ''main'' ''CodeRepo''
        (Artifact ''SourceOutput'') None]"
  by (simp add: stage_actions_def lookup_stage_def init_pipeline_stages)

lemma stage_actions_Build:
  "stage_actions CodepipeStack_init ''Build'' =
     [CodeBuildAction ''Build'' ''BuildProject'' (Artifact ''SourceOutput'')
        [Artifact ''BuildOutput''] None]"
  by (simp add: stage_actions_def lookup_stage_def init_pipeline_stages)

lemma stage_actions_Deploy:
  "stage_actions CodepipeStack_init ''Deploy'' =
     [S3DeployAction ''Deploy'' (Artifact ''BuildOutput'') ''ArtifactBucket'' True None,
      CloudFormationCreateUpdateStackAction ''UpdateStack''
        (ArtifactPath (Artifact ''BuildOutput'') ''template.yaml'') ''PythonAppStack'' True
        None]"
  by (simp add: stage_actions_def lookup_stage_def init_pipeline_stages)

lemma stage_projects_Build:
  "stage_projects CodepipeStack_init ''Build'' = projects CodepipeStack_init"
  by (simp add: stage_projects_def stage_actions_Build List.map_filter_simps find_project_def
      init_projects)

lemma inputs_produced_sound:
  "inputs_produced avail sts \<Longrightarrow> i < length sts \<Longrightarrow> a \<in> set (stage_input_names (sts ! i)) \<Longrightarrow>
   a \<in> set avail \<or> (\<exists>j<i. a \<in> set (stage_output_names (sts ! j)))"
proof (induction sts arbitrary: avail i)
  case Nil
  then show ?case by simp
next
  case (Cons s ss)
  show ?case
  proof (cases i)
    case 0
    with Cons.prems show ?thesis by (simp add: list_all_iff)
  next
    case (Suc k)
    with Cons.prems have "inputs_produced (avail @ stage_output_names s) ss" "k < length ss"
      "a \<in> set (stage_input_names (ss ! k))" by simp_all
    from Cons.IH[OF this]
    have "a \<in> set avail \<or> a \<in> set (stage_output_names s) \<or>
          (\<exists>j<k. a \<in> set (stage_output_names (ss ! j)))" by auto
    then show ?thesis
    proof (elim disjE exE conjE)
      assume "a \<in> set avail" then show ?thesis by simp
    next
      assume "a \<in> set (stage_output_names s)"
      then have "0 < i \<and> a \<in> set (stage_output_names ((s # ss) ! 0))" using Suc by simp
      then show ?thesis by blast
    next
      fix j assume "j < k" "a \<in> set (stage_output_names (ss ! j))"
      then have "Suc j < i \<and> a \<in> set (stage_output_names ((s # ss) ! Suc j))" using Suc by simp
      then show ?thesis by blast
    qed
  qed
qed

lemma init_inputs_produced: "inputs_produced [] (pipeline_stages CodepipeStack_init)"
  by (simp add: init_pipeline_stages stage_input_names_def stage_output_names_def)


section \<open>The pipeline\<close>

text \<open>
  C1. The stack declares one pipeline; its stages are Source, Build and Deploy, in that
  order, and the Source stage has one action, a CodeCommit checkout of branch \<open>main\<close> of the
  stack's repository whose output artifact is named \<open>SourceOutput\<close>.
\<close>

theorem pipeline_three_stages_source_checkout:
  "map pipeline_name (pipelines CodepipeStack_init) = [''PythonAppPipeline''] \<and>
   map stage_name (pipeline_stages CodepipeStack_init) = [''Source'', ''Build'', ''Deploy''] \<and>
   stage_actions CodepipeStack_init ''Source'' =
     [CodeCommitSourceAction ''CodeCommit'' ''main'' ''CodeRepo''
        (Artifact ''SourceOutput'') None] \<and>
   map repo_id (repositories CodepipeStack_init) = [''CodeRepo''] \<and>
   map (map artifact_name \<circ> action_outputs) (stage_actions CodepipeStack_init ''Source'') =
     [[''SourceOutput'']]"
  by (simp add: init_pipeline_names init_pipeline_stages stage_actions_Source init_repositories)

text \<open>
  C2. The Build stage's action is a CodeBuild action with input artifact \<open>SourceOutput\<close> and
  output artifact \<open>BuildOutput\<close>; the project it runs has an environment variable
  \<open>BUCKET_NAME\<close> whose value is the name of the bucket \<open>ArtifactBucket\<close>, a bucket declared
  in the stack.
\<close>

theorem build_action_artifacts_and_bucket_env:
  "map is_code_build (stage_actions CodepipeStack_init ''Build'') = [True] \<and>
   map (map artifact_name \<circ> action_inputs) (stage_actions CodepipeStack_init ''Build'') =
     [[''SourceOutput'']] \<and>
   map (map artifact_name \<circ> action_outputs) (stage_actions CodepipeStack_init ''Build'') =
     [[''BuildOutput'']] \<and>
   map (\<lambda>p. map_of (environment_variables p) ''BUCKET_NAME'')
       (stage_projects CodepipeStack_init ''Build'') =
     [Some (BuildEnvironmentVariable [BucketNameOf ''ArtifactBucket''])] \<and>
   \<lparr>bucket_id = ''ArtifactBucket''\<rparr> \<in> set (buckets CodepipeStack_init)"
  by (simp add: stage_actions_Build stage_projects_Build init_projects init_buckets)

text \<open>
  C3, as the spec states it: the Deploy stage executes the S3 deploy action and then the
  CloudFormation action. Neither action is given a run order, so both have run order 1 and
  the first does not run before the second.
\<close>

theorem deploy_publish_not_before_apply:
  "\<not> runs_before (stage_actions CodepipeStack_init ''Deploy'' ! 0)
       (stage_actions CodepipeStack_init ''Deploy'' ! 1)"
  by (simp add: stage_actions_Deploy runs_before_def action_run_order_def)

text \<open>
  C3, amended: the Deploy stage lists the S3 deploy action first and the CloudFormation
  action second, neither with a run order, so that both have run order 1; both read the
  artifact \<open>BuildOutput\<close>, and the CloudFormation action applies \<open>template.yaml\<close> of that
  artifact to the stack \<open>PythonAppStack\<close>.
\<close>

theorem deploy_stage_publish_and_apply:
  "stage_actions CodepipeStack_init ''Deploy'' =
     [S3DeployAction ''Deploy'' (Artifact ''BuildOutput'') ''ArtifactBucket'' True None,
      CloudFormationCreateUpdateStackAction ''UpdateStack''
        (ArtifactPath (Artifact ''BuildOutput'') ''template.yaml'') ''PythonAppStack'' True
        None] \<and>
   map action_run_order (stage_actions CodepipeStack_init ''Deploy'') = [1, 1] \<and>
   map (map artifact_name \<circ> action_inputs) (stage_actions CodepipeStack_init ''Deploy'') =
     [[''BuildOutput''], [''BuildOutput'']]"
  by (simp add: stage_actions_Deploy action_run_order_def)

text \<open>
  C4. In the declared pipeline every artifact name a stage reads is written by a strictly
  earlier stage: Build reads \<open>SourceOutput\<close>, which Source writes, and both Deploy actions
  read \<open>BuildOutput\<close>, which Build writes.
\<close>

theorem stage_inputs_written_earlier:
  "(\<forall>i<length (pipeline_stages CodepipeStack_init).
      \<forall>a\<in>set (stage_input_names (pipeline_stages CodepipeStack_init ! i)).
        \<exists>j<i. a \<in> set (stage_output_names (pipeline_stages CodepipeStack_init ! j))) \<and>
   map stage_input_names (pipeline_stages CodepipeStack_init) =
     [[], [''SourceOutput''], [''BuildOutput'', ''BuildOutput'']] \<and>
   map stage_output_names (pipeline_stages CodepipeStack_init) =
     [[''SourceOutput''], [''BuildOutput''], []]"
proof (intro conjI allI impI ballI)
  fix i a
  assume "i < length (pipeline_stages CodepipeStack_init)"
    and "a \<in> set (stage_input_names (pipeline_stages CodepipeStack_init ! i))"
  with inputs_produced_sound[OF init_inputs_produced]
  show "\<exists>j<i. a \<in> set (stage_output_names (pipeline_stages CodepipeStack_init ! j))"
    by fastforce
next
  show "map stage_input_names (pipeline_stages CodepipeStack_init) =
     [[], [''SourceOutput''], [''BuildOutput'', ''BuildOutput'']]"
    by (simp add: init_pipeline_stages stage_input_names_def)
next
  show "map stage_output_names (pipeline_stages CodepipeStack_init) =
     [[''SourceOutput''], [''BuildOutput''], []]"
    by (simp add: init_pipeline_stages stage_output_names_def)
qed

theorem stage_inputs_written_earlier_witness:
  "(2::nat) < length (pipeline_stages CodepipeStack_init) \<and>
   ''BuildOutput'' \<in> set (stage_input_names (pipeline_stages CodepipeStack_init ! 2)) \<and>
   (\<exists>j<2. ''BuildOutput'' \<in> set (stage_output_names (pipeline_stages CodepipeStack_init ! j)))"
proof -
  have len: "(2::nat) < length (pipeline_stages CodepipeStack_init)"
    by (simp add: init_pipeline_stages)
  have inp: "''BuildOutput'' \<in> set (stage_input_names (pipeline_stages CodepipeStack_init ! 2))"
    by (simp add: init_pipeline_stages stage_input_names_def)
  from stage_inputs_written_earlier len inp show ?thesis by blast
qed

section \<open>The build project\<close>

text \<open>
  C5, as the spec states it: the commands of the Build stage are the two commands
  \<open>pip install -r requirements.txt\<close> and \<open>python build.py\<close>. The buildspec has a third
  command between them.
\<close>

theorem build_commands_not_two:
  "stage_commands CodepipeStack_init ''Build'' \<noteq>
     [''pip install -r requirements.txt'', ''python build.py'']"
  by (simp add: stage_commands_def stage_projects_Build init_projects build_commands_def
      the_build_spec_def)

text \<open>
  C5, amended: the commands of the Build stage are the three commands of the buildspec, the
  one of the install phase and then the two of the build phase:
  \<open>pip install -r requirements.txt\<close>, \<open>echo Building the Python app...\<close>, \<open>python build.py\<close>.
\<close>

theorem build_commands_three:
  "stage_commands CodepipeStack_init ''Build'' =
     [''pip install -r requirements.txt'', ''echo Building the Python app...'',
      ''python build.py'']"
  by (simp add: stage_commands_def stage_projects_Build init_projects build_commands_def
      the_build_spec_def)

text \<open>
  C6. The build artifact of the project the Build stage runs is declared as the file
  pattern \<open>**/*\<close> under the base directory \<open>dist\<close>.
\<close>

theorem build_artifact_glob_and_base:
  "map (\<lambda>p. artifacts (build_spec p)) (stage_projects CodepipeStack_init ''Build'') =
     [\<lparr>files = [''**/*''], base_directory = ''dist''\<rparr>]"
  by (simp add: stage_projects_Build init_projects the_build_spec_def)

text \<open>
  C8. The Build stage has exactly one action, the CodeBuild action; the stack holds no
  Lambda function, and no stage of the pipeline holds a Lambda-invoke action.
\<close>

theorem no_lambda_trigger:
  "map is_code_build (stage_actions CodepipeStack_init ''Build'') = [True] \<and>
   lambda_functions CodepipeStack_init = [] \<and>
   filter is_lambda_invoke (concat (map actions (pipeline_stages CodepipeStack_init))) = []"
  by (simp add: stage_actions_Build init_lambda_functions init_pipeline_stages)

section \<open>The instance, its bucket and its network\<close>

text \<open>
  C7. The stack has exactly one output, named \<open>InstancePublicIp\<close>; its value is the public
  IP address of the stack's instance.
\<close>

theorem single_output_instance_public_ip:
  "map output_id (outputs CodepipeStack_init) = [''InstancePublicIp''] \<and>
   map output_value (outputs CodepipeStack_init) = [[InstancePublicIpOf ''AppInstance'']] \<and>
   map instance_id (instances CodepipeStack_init) = [''AppInstance'']"
  by (simp add: init_outputs init_instances)

text \<open>
  C9. One bucket of the stack, \<open>ArtifactBucket\<close>, is the bucket in all four places: the
  value of the build project's \<open>BUCKET_NAME\<close>, the target of the S3 deploy action of the
  Deploy stage, the resource the instance may read, and the bucket in the \<open>aws s3 cp\<close>
  command of the instance's startup script, which fetches \<open>dist/djangopro.tar.gz\<close>.
\<close>

theorem one_artifact_bucket_everywhere:
  "\<lparr>bucket_id = ''ArtifactBucket''\<rparr> \<in> set (buckets CodepipeStack_init) \<and>
   map (\<lambda>p. map_of (environment_variables p) ''BUCKET_NAME'')
       (stage_projects CodepipeStack_init ''Build'') =
     [Some (BuildEnvironmentVariable [BucketNameOf ''ArtifactBucket''])] \<and>
   List.map_filter action_bucket (stage_actions CodepipeStack_init ''Deploy'') =
     [''ArtifactBucket''] \<and>
   readable_by_instance CodepipeStack_init ''AppInstance'' = [BucketResource ''ArtifactBucket''] \<and>
   instance_script CodepipeStack_init ''AppInstance'' ! 1 =
     [Lit ''aws s3 cp s3://'', BucketNameOf ''ArtifactBucket'',
      Lit ''/dist/djangopro.tar.gz /tmp/djangopro.tar.gz''] \<and>
   concat (map buckets_in (instance_script CodepipeStack_init ''AppInstance'')) =
     [''ArtifactBucket'']"
  by (simp add: init_buckets stage_projects_Build init_projects stage_actions_Deploy
      List.map_filter_simps readable_by_instance_def init_read_grants instance_script_def
      find_instance_def init_instances buckets_in_def)

text \<open>
  C10. The security group of the instance allows all outbound traffic and has one inbound
  rule, TCP port 22 from \<open>0.0.0.0/0\<close>; no inbound rule admits TCP port 8000, the port on
  which the last command of the startup script serves the application.
\<close>

theorem ssh_only_ingress:
  "map_option allow_all_outbound (instance_security_group CodepipeStack_init ''AppInstance'') =
     Some True \<and>
   map_option (map (\<lambda>r. (peer_cidr (rule_peer r), connection r)) \<circ> ingress_rules)
       (instance_security_group CodepipeStack_init ''AppInstance'') =
     Some [(''0.0.0.0/0'', Port_tcp 22)] \<and>
   map_option (filter (\<lambda>r. admits_tcp r 8000) \<circ> ingress_rules)
       (instance_security_group CodepipeStack_init ''AppInstance'') = Some [] \<and>
   last (instance_script CodepipeStack_init ''AppInstance'') =
     [Lit ''python3 manage.py runserver 0.0.0.0:8000'']"
  by (simp add: instance_security_group_def find_instance_def init_instances
      find_security_group_def init_security_groups instance_script_def)

end
